theory Spec2Isabelle
  imports Main
begin

section \<open>Values of the program\<close>

text \<open>
  The ledger engine is the class \<open>Blockchain\<close> of \<open>src/blockchain.js\<close>. Its methods
  are embedded below as functions that take the object's state and return the state
  they leave, together with the way the Promise they return settles.

  Structured data (the star of a submission, the marker of the genesis block, a decoded
  body) is a JSON value.
\<close>

datatype json =
    JNull
  | JBool bool
  | JNum int
  | JStr string
  | JArr "json list"
  | JObj "(string \<times> json) list"

text \<open>
  A JavaScript Number as the time arithmetic of \<open>submitStar\<close> meets it: \<open>NaN\<close> or an
  integer. The doubles of JavaScript hold every integer below \<open>2^53\<close> exactly, and the
  one comparison made on them, against \<open>300000\<close>, has the same outcome on the rounded
  operands as on the exact ones, so the integers are kept exact.
\<close>

datatype number = NaN | Num int

fun minus_number :: "number \<Rightarrow> number \<Rightarrow> number" where
  "minus_number (Num a) (Num b) = Num (a - b)"
| "minus_number _ _ = NaN"

fun greater_number :: "number \<Rightarrow> int \<Rightarrow> bool" where
  "greater_number (Num a) b = (a > b)"
| "greater_number NaN b = False"

text \<open>
  An object of class \<open>Block\<close>. \<open>hash\<close> and \<open>previousBlockHash\<close> are \<open>null\<close> or a string;
  \<open>address\<close> is a property that only \<open>submitStar\<close> adds; \<open>body\<close> holds the hex string
  of the encoded data until a method stores a decoded value there.
\<close>

record block =
  hash :: "string option"
  height :: int
  body :: json
  time :: string
  previousBlockHash :: "string option"
  address :: "string option"

text \<open>
  The state of a \<open>Blockchain\<close> object: \<open>this.chain\<close> and \<open>this.height\<close>. Every block
  object is pushed on the array once, when it is created, so an object is identified
  by its position in \<open>chain\<close>; a reference to a stored block is that position.
\<close>

record blockchain =
  chain :: "block list"
  this_height :: int

text \<open>
  The libraries the class calls, as parameters:
  \<^item> \<open>verify\<close>: \<open>bitcoinMessage.verify(message, address, signature)\<close>, its boolean
    result, or \<open>None\<close> when the call throws, as the library does on a signature or an
    address that is malformed;
  \<^item> \<open>SHA256_stringify\<close>: \<open>SHA256(JSON.stringify(block)).toString()\<close>;
  \<^item> \<open>toHex_stringify\<close>: \<open>Buffer.from(JSON.stringify(data)).toString('hex')\<close>;
  \<^item> \<open>hex2ascii\<close>: the function of that name, applied to whatever a body holds and
    taken to return a string for each value;
  \<^item> \<open>JSON_parse\<close>: \<open>JSON.parse\<close>, \<open>None\<close> when it throws a SyntaxError;
  \<^item> \<open>validate\<close>: whether the value that the Promise of \<open>block.validate()\<close> is
    fulfilled with is truthy. The method belongs to \<open>block.js\<close>, which is not among
    the sources; nothing is assumed about it but that its Promise is already fulfilled
    when it is returned, as the Promises of this class are, and that it leaves the
    block as it found it.
\<close>

record libs =
  verify :: "string \<Rightarrow> string \<Rightarrow> string \<Rightarrow> bool option"
  SHA256_stringify :: "block \<Rightarrow> string"
  toHex_stringify :: "json \<Rightarrow> string"
  hex2ascii :: "json \<Rightarrow> string"
  JSON_parse :: "string \<Rightarrow> json option"
  validate :: "block \<Rightarrow> bool"

subsection \<open>Promises\<close>

text \<open>
  What a Promise is rejected with: the array of error messages, a message string, or
  an exception thrown inside the executor.
\<close>

datatype js_error = TypeError | SyntaxError

datatype reason = ErrorLog "string list" | Message string | Thrown js_error

datatype 'a promise = Pending | Resolved 'a | Rejected reason

text \<open>
  \<open>resolve\<close> and \<open>reject\<close> settle a pending Promise and do nothing to a settled one.
  Neither leaves the function that calls it: the statements after a call of \<open>reject\<close>
  run as well.
\<close>

definition resolve :: "'a promise \<Rightarrow> 'a \<Rightarrow> 'a promise" where
  "resolve p v = (case p of Pending \<Rightarrow> Resolved v | _ \<Rightarrow> p)"

definition reject :: "'a promise \<Rightarrow> reason \<Rightarrow> 'a promise" where
  "reject p r = (case p of Pending \<Rightarrow> Rejected r | _ \<Rightarrow> p)"

subsection \<open>Strings and numbers\<close>

text \<open>\<open>Number.prototype.toString\<close> on an integer: its decimal digits.\<close>

definition digit_char :: "nat \<Rightarrow> char" where
  "digit_char d = ''0123456789'' ! d"

function toString_nat :: "nat \<Rightarrow> string" where
  "toString_nat n =
     (if n < 10 then [digit_char n] else toString_nat (n div 10) @ [digit_char (n mod 10)])"
  by pat_completeness auto
termination
  by (relation "measure (\<lambda>n. n)") auto

declare toString_nat.simps [simp del]

definition toString :: "int \<Rightarrow> string" where
  "toString i = (if i < 0 then CHR ''-'' # toString_nat (nat (- i)) else toString_nat (nat i))"

text \<open>\<open>s.slice(0, -3)\<close>: the string without its last three characters.\<close>

definition slice_0_minus3 :: "string \<Rightarrow> string" where
  "slice_0_minus3 s = take (length s - 3) s"

text \<open>\<open>s.split(c)\<close>: the fields between the occurrences of the character; never empty.\<close>

fun split_str :: "char \<Rightarrow> string \<Rightarrow> string list" where
  "split_str sep [] = [[]]"
| "split_str sep (c # cs) =
     (if c = sep then [] # split_str sep cs
      else (case split_str sep cs of
              [] \<Rightarrow> [[c]]
            | f # fs \<Rightarrow> (c # f) # fs))"

text \<open>\<open>a[i]\<close> on an array: \<open>undefined\<close> (here \<open>None\<close>) out of range.\<close>

definition at_index :: "'a list \<Rightarrow> nat \<Rightarrow> 'a option" where
  "at_index xs i = (if i < length xs then Some (xs ! i) else None)"

text \<open>
  \<open>parseInt\<close> with no radix. The argument is converted to a string (\<open>undefined\<close>
  gives \<open>"undefined"\<close>), leading white space is dropped, a sign is read, a prefix
  \<open>0x\<close> or \<open>0X\<close> selects radix 16, and the longest run of digits of the radix is the
  value; with no digit the result is \<open>NaN\<close>. Characters are the code units below 256.
\<close>

definition isWhiteSpace :: "char \<Rightarrow> bool" where
  "isWhiteSpace c = ((of_char c :: nat) \<in> {9, 10, 11, 12, 13, 32, 160})"

definition digit_value :: "char \<Rightarrow> nat" where
  "digit_value c =
     (let n = (of_char c :: nat) in
      if 48 \<le> n \<and> n \<le> 57 then n - 48
      else if 97 \<le> n \<and> n \<le> 122 then n - 87
      else if 65 \<le> n \<and> n \<le> 90 then n - 55
      else 36)"

definition isDigit :: "nat \<Rightarrow> char \<Rightarrow> bool" where
  "isDigit R c = (digit_value c < R)"

definition value_of_digits :: "nat \<Rightarrow> string \<Rightarrow> int" where
  "value_of_digits R z = foldl (\<lambda>acc c. acc * int R + int (digit_value c)) 0 z"

definition ToString_arg :: "string option \<Rightarrow> string" where
  "ToString_arg x = (case x of None \<Rightarrow> ''undefined'' | Some s \<Rightarrow> s)"

definition parseInt :: "string option \<Rightarrow> number" where
  "parseInt x =
     (let s1 = dropWhile isWhiteSpace (ToString_arg x);
          sign = (if take 1 s1 = ''-'' then - 1 else 1);
          s2 = (if take 1 s1 = ''+'' \<or> take 1 s1 = ''-'' then drop 1 s1 else s1);
          R = (if take 2 s2 = ''0x'' \<or> take 2 s2 = ''0X'' then 16 else 10);
          s3 = (if R = 16 then drop 2 s2 else s2);
          z = takeWhile (isDigit R) s3
      in if z = [] then NaN else Num (sign * value_of_digits R z))"

text \<open>
  \<open>_getCurrentTimeStamp()\<close>, which is also the expression \<open>_addBlock\<close> and
  \<open>submitStar\<close> write out: \<open>new Date().getTime().toString().slice(0, -3)\<close>. The
  clock, in milliseconds, is an argument of every method that reads it; the reads of
  one call give one value.
\<close>

definition getCurrentTimeStamp :: "nat \<Rightarrow> string" where
  "getCurrentTimeStamp nowMs = slice_0_minus3 (toString (int nowMs))"

section \<open>The class Blockchain\<close>

subsection \<open>Blocks\<close>

text \<open>
  Modelled from the spec: the constructor of \<open>Block\<close>, of \<open>block.js\<close>, which is not
  among the sources. The spec has a block hold its payload encoded by the codec; the
  values of the other fields of a new block are those of the comment that closes one
  of the drafts of the class (\<open>hash = null\<close>, \<open>height = 0\<close>,
  \<open>body = Buffer.from(JSON.stringify(data)).toString('hex')\<close>, \<open>time = 0\<close>,
  \<open>previousBlockHash = null\<close>). A new block has no property \<open>address\<close>. The number
  \<open>0\<close> of \<open>time\<close> is written as the string \<open>0\<close>: \<open>_addBlock\<close> assigns the time
  string before the field is read.
\<close>

definition Block :: "libs \<Rightarrow> json \<Rightarrow> block" where
  "Block L data =
     \<lparr>hash = None, height = 0, body = JStr (toHex_stringify L data), time = ''0'',
      previousBlockHash = None, address = None\<rparr>"

definition genesis_data :: json where
  "genesis_data = JObj [(''data'', JStr ''Genesis Block'')]"

text \<open>\<open>_hexToJSON(hexStr)\<close>: \<open>JSON.parse(hex2ascii(hexStr))\<close>, which may throw.\<close>

definition hexToJSON :: "libs \<Rightarrow> json \<Rightarrow> js_error + json" where
  "hexToJSON L hexStr =
     (case JSON_parse L (hex2ascii L hexStr) of
        None \<Rightarrow> Inl SyntaxError
      | Some v \<Rightarrow> Inr v)"

text \<open>
  \<open>_construcDuplicateBlock(block)\<close>: a new block made of the decoded body, given the
  hash, the previous hash, the time and the height of the stored one, its body decoded
  once more. The stored block is read only.
\<close>

definition construcDuplicateBlock :: "libs \<Rightarrow> block \<Rightarrow> js_error + block" where
  "construcDuplicateBlock L b =
     (case hexToJSON L (body b) of
        Inl e \<Rightarrow> Inl e
      | Inr d \<Rightarrow>
          (let responseBlock = Block L d;
               responseBlock = responseBlock\<lparr>hash := hash b\<rparr>;
               responseBlock = responseBlock\<lparr>previousBlockHash := previousBlockHash b\<rparr>;
               responseBlock = responseBlock\<lparr>time := time b\<rparr>;
               responseBlock = responseBlock\<lparr>height := height b\<rparr>
           in case hexToJSON L (body responseBlock) of
                Inl e \<Rightarrow> Inl e
              | Inr d' \<Rightarrow> Inr (responseBlock\<lparr>body := d'\<rparr>)))"

subsection \<open>validateChain\<close>

text \<open>
  The loop of \<open>validateChain\<close> runs from \<open>i = 1\<close> to the end of the array. At each
  \<open>i\<close> it calls \<open>validate()\<close> on the block at \<open>i\<close> and on the block at \<open>i - 1\<close> and
  attaches a callback to each Promise; a callback pushes a message when the value is
  truthy. The message for the block at \<open>i - 1\<close> reads the property \<open>height\<close> of the
  Promise, which is \<open>undefined\<close>. The callbacks run in the order they were attached,
  and before the callback that the caller attaches to the Promise of \<open>validateChain\<close>:
  the array that Promise is fulfilled with holds every message when the caller reads
  it. That content is what the function below returns.
\<close>

function validateChain_loop :: "libs \<Rightarrow> block list \<Rightarrow> nat \<Rightarrow> string list \<Rightarrow> string list" where
  "validateChain_loop L ch i errorLog =
     (if i < length ch then
        (let currentBlock = ch ! i;
             errorLog1 =
               (if validate L currentBlock
                then errorLog @
                  [''At height '' @ toString (height currentBlock) @ '' Block is not valid'']
                else errorLog);
             previousBlock = ch ! (i - 1);
             errorLog2 =
               (if validate L previousBlock
                then errorLog1 @ [''At height undefined Block is not valid'']
                else errorLog1)
         in validateChain_loop L ch (i + 1) errorLog2)
      else errorLog)"
  by pat_completeness auto
termination
  by (relation "measure (\<lambda>(L, ch, i, errorLog). length ch - i)") auto

declare validateChain_loop.simps [simp del]

definition validateChain :: "libs \<Rightarrow> blockchain \<Rightarrow> string list promise \<times> blockchain" where
  "validateChain L s = (resolve Pending (validateChain_loop L (chain s) 1 []), s)"

subsection \<open>Creating the chain and adding blocks\<close>

text \<open>
  \<open>_addBlock(block)\<close>. The height is set to the length of the array and incremented
  before the hash is taken; \<open>validateChain\<close> is called and its result dropped;
  \<open>this.height\<close> is not assigned.
\<close>

definition addBlock :: "libs \<Rightarrow> blockchain \<Rightarrow> nat \<Rightarrow> block \<Rightarrow> block promise \<times> blockchain" where
  "addBlock L s nowMs b =
     (let b = b\<lparr>height := int (length (chain s))\<rparr>;
          b = b\<lparr>time := getCurrentTimeStamp nowMs\<rparr>;
          errorLogs = fst (validateChain L s);
          b = (if length (chain s) > 0
               then b\<lparr>previousBlockHash := hash (chain s ! (length (chain s) - 1))\<rparr>
               else b);
          b = b\<lparr>height := height b + 1\<rparr>;
          b = b\<lparr>hash := Some (SHA256_stringify L b)\<rparr>
      in (resolve Pending b, s\<lparr>chain := chain s @ [b]\<rparr>))"

definition initializeChain :: "libs \<Rightarrow> blockchain \<Rightarrow> nat \<Rightarrow> unit promise \<times> blockchain" where
  "initializeChain L s nowMs =
     (if this_height s = - 1
      then (resolve Pending (), snd (addBlock L s nowMs (Block L genesis_data)))
      else (resolve Pending (), s))"

text \<open>\<open>new Blockchain()\<close>: the state the constructor leaves.\<close>

definition new_Blockchain :: "libs \<Rightarrow> nat \<Rightarrow> blockchain" where
  "new_Blockchain L nowMs = snd (initializeChain L \<lparr>chain = [], this_height = - 1\<rparr> nowMs)"

definition getChainHeight :: "blockchain \<Rightarrow> int promise \<times> blockchain" where
  "getChainHeight s = (resolve Pending (this_height s), s)"

subsection \<open>Submitting a star\<close>

definition requestMessageOwnershipVerification ::
    "blockchain \<Rightarrow> nat \<Rightarrow> string \<Rightarrow> string promise \<times> blockchain" where
  "requestMessageOwnershipVerification s nowMs addr =
     (resolve Pending (addr @ '':'' @ getCurrentTimeStamp nowMs @ '':starRegistry''), s)"

definition incomingTime :: "string \<Rightarrow> number" where
  "incomingTime message = parseInt (at_index (split_str CHR '':'' message) 1)"

definition currentTime :: "nat \<Rightarrow> number" where
  "currentTime nowMs = parseInt (Some (getCurrentTimeStamp nowMs))"

definition timeElapsed :: "nat \<Rightarrow> string \<Rightarrow> number" where
  "timeElapsed nowMs message = minus_number (currentTime nowMs) (incomingTime message)"

definition time_elapsed_text :: string where
  "time_elapsed_text = ''time elapsed. Please generated a new message and a signature''"

definition can_not_verify_text :: string where
  "can_not_verify_text = ''can not verify signature''"

text \<open>
  \<open>submitStar(address, message, signature, star)\<close>. All of it runs in the callback
  attached to the Promise of \<open>validateChain\<close>. The three checks call \<open>reject\<close> and go
  on: once \<open>bitcoinMessage.verify\<close> has returned, the block is made, given its address
  and handed to \<open>_addBlock\<close> whatever the checks found, and \<open>resolve\<close> comes last, on
  a Promise that the first of them has settled.
  The value passed to \<open>resolve\<close> is the block object itself, which \<open>_addBlock\<close> has
  filled in and pushed: the last element of the array. The callback runs after the
  \<open>try\<close> block of the executor has been left, so an exception of
  \<open>bitcoinMessage.verify\<close> ends it where it is thrown: nothing is pushed, \<open>resolve\<close>
  is not reached, and the Promise stays as the two checks before have left it, pending
  when neither has rejected it.
\<close>

definition submitStar ::
    "libs \<Rightarrow> blockchain \<Rightarrow> nat \<Rightarrow> string \<Rightarrow> string \<Rightarrow> string \<Rightarrow> json \<Rightarrow>
     block promise \<times> blockchain" where
  "submitStar L s nowMs addr message signature star =
     (let errorLog = validateChain_loop L (chain s) 1 [];
          p = Pending;
          p = (if length errorLog > 0 then reject p (ErrorLog errorLog) else p);
          p = (if greater_number (timeElapsed nowMs message) 300000
               then reject p (Message time_elapsed_text) else p)
      in case verify L message addr signature of
           None \<Rightarrow> (p, s)
         | Some verified \<Rightarrow>
             (let p = (if \<not> verified then reject p (Message can_not_verify_text) else p);
                  b = Block L star;
                  b = b\<lparr>address := Some addr\<rparr>;
                  s' = snd (addBlock L s nowMs b);
                  b = chain s' ! (length (chain s') - 1)
              in (resolve p b, s')))"

subsection \<open>Queries\<close>

definition getBlockByHash :: "libs \<Rightarrow> blockchain \<Rightarrow> string \<Rightarrow> block promise \<times> blockchain" where
  "getBlockByHash L s h =
     (let result = filter (\<lambda>b. hash b = Some h) (chain s) in
      if length result > 0 then
        (case construcDuplicateBlock L (result ! 0) of
           Inl e \<Rightarrow> (reject Pending (Thrown e), s)
         | Inr responseBlock \<Rightarrow> (resolve Pending responseBlock, s))
      else (reject Pending (Message (''No block found for hash '' @ h)), s))"

text \<open>
  \<open>getBlockByHeight(height)\<close> resolves with a block or with \<open>null\<close>. The first block
  of the filtered array is \<open>undefined\<close> when no block has the height, and reading
  \<open>block.height\<close> then throws a TypeError inside the executor.
\<close>

definition getBlockByHeight ::
    "libs \<Rightarrow> blockchain \<Rightarrow> int \<Rightarrow> block option promise \<times> blockchain" where
  "getBlockByHeight L s h =
     (case at_index (filter (\<lambda>p. height p = h) (chain s)) 0 of
        None \<Rightarrow> (reject Pending (Thrown TypeError), s)
      | Some b \<Rightarrow>
          if height b \<ge> 0 then
            (case construcDuplicateBlock L b of
               Inl e \<Rightarrow> (reject Pending (Thrown e), s)
             | Inr responseBlock \<Rightarrow> (resolve Pending (Some responseBlock), s))
          else (resolve Pending None, s))"

text \<open>
  \<open>getStarsByWalletAddress(address)\<close>. The filtered array holds references to the
  stored blocks. \<open>forEach\<close> assigns the decoded body to each of them in turn, that is to
  the blocks of the chain; an exception of \<open>_hexToJSON\<close> ends the loop and rejects the
  Promise, the blocks before it staying assigned.
\<close>

fun forEach_hexToJSON :: "libs \<Rightarrow> nat list \<Rightarrow> block list \<Rightarrow> block list \<times> js_error option" where
  "forEach_hexToJSON L [] ch = (ch, None)"
| "forEach_hexToJSON L (r # rs) ch =
     (case hexToJSON L (body (ch ! r)) of
        Inl e \<Rightarrow> (ch, Some e)
      | Inr v \<Rightarrow> forEach_hexToJSON L rs (ch[r := (ch ! r)\<lparr>body := v\<rparr>]))"

definition getStarsByWalletAddress ::
    "libs \<Rightarrow> blockchain \<Rightarrow> string \<Rightarrow> block list promise \<times> blockchain" where
  "getStarsByWalletAddress L s addr =
     (let result = filter (\<lambda>r. address (chain s ! r) = Some addr) [0..<length (chain s)] in
      if length result > 0 then
        (case forEach_hexToJSON L result (chain s) of
           (ch, Some e) \<Rightarrow> (reject Pending (Thrown e), s\<lparr>chain := ch\<rparr>)
         | (ch, None) \<Rightarrow> (resolve Pending (map (\<lambda>r. ch ! r) result), s\<lparr>chain := ch\<rparr>))
      else (reject Pending (Message (''No block found for address '' @ addr)), s))"

subsection \<open>Sequences of calls\<close>

text \<open>The public methods, and the state a sequence of calls leaves.\<close>

datatype call =
    InitializeChain nat
  | GetChainHeight
  | RequestMessageOwnershipVerification nat string
  | SubmitStar nat string string string json
  | GetBlockByHash string
  | GetBlockByHeight int
  | GetStarsByWalletAddress string
  | ValidateChain

fun step :: "libs \<Rightarrow> blockchain \<Rightarrow> call \<Rightarrow> blockchain" where
  "step L s (InitializeChain nowMs) = snd (initializeChain L s nowMs)"
| "step L s GetChainHeight = snd (getChainHeight s)"
| "step L s (RequestMessageOwnershipVerification nowMs addr) =
     snd (requestMessageOwnershipVerification s nowMs addr)"
| "step L s (SubmitStar nowMs addr message signature star) =
     snd (submitStar L s nowMs addr message signature star)"
| "step L s (GetBlockByHash h) = snd (getBlockByHash L s h)"
| "step L s (GetBlockByHeight h) = snd (getBlockByHeight L s h)"
| "step L s (GetStarsByWalletAddress addr) = snd (getStarsByWalletAddress L s addr)"
| "step L s ValidateChain = snd (validateChain L s)"

definition run :: "libs \<Rightarrow> nat \<Rightarrow> call list \<Rightarrow> blockchain" where
  "run L nowMs calls = foldl (step L) (new_Blockchain L nowMs) calls"

subsection \<open>The same methods in an earlier draft\<close>

text \<open>
  One of the drafts of the class kept beside \<open>blockchain.js\<close> has \<open>_addBlock\<close> without
  the increment of the height (and without the call of \<open>validateChain\<close>), and
  \<open>getBlockByHeight\<close> testing the block itself (\<open>if (block)\<close>) and resolving with a copy
  of it. They are embedded for comparison only.
\<close>

definition addBlock_draft :: "libs \<Rightarrow> blockchain \<Rightarrow> nat \<Rightarrow> block \<Rightarrow> block promise \<times> blockchain" where
  "addBlock_draft L s nowMs b =
     (let b = b\<lparr>height := int (length (chain s))\<rparr>;
          b = b\<lparr>time := getCurrentTimeStamp nowMs\<rparr>;
          b = (if length (chain s) > 0
               then b\<lparr>previousBlockHash := hash (chain s ! (length (chain s) - 1))\<rparr>
               else b);
          b = b\<lparr>hash := Some (SHA256_stringify L b)\<rparr>
      in (resolve Pending b, s\<lparr>chain := chain s @ [b]\<rparr>))"

definition getBlockByHeight_draft ::
    "blockchain \<Rightarrow> int \<Rightarrow> block option promise \<times> blockchain" where
  "getBlockByHeight_draft s h =
     (case at_index (filter (\<lambda>p. height p = h) (chain s)) 0 of
        Some b \<Rightarrow> (resolve Pending (Some b), s)
      | None \<Rightarrow> (resolve Pending None, s))"

section \<open>Notions used in the statements\<close>

text \<open>
  Modelled from the spec: the check of \<open>Block.validate\<close>, of \<open>block.js\<close>, which is not
  among the sources. A block is valid iff recomputing the hasher over its stored
  fields, the hash left out, reproduces its stored hash. \<open>_addBlock\<close> takes the hash
  while the field \<open>hash\<close> is still \<open>null\<close>, so the recomputation is over the block with
  that field \<open>null\<close>.
\<close>

definition validate_spec :: "(block \<Rightarrow> string) \<Rightarrow> block \<Rightarrow> bool" where
  "validate_spec H b = (hash b = Some (H (b\<lparr>hash := None\<rparr>)))"


text \<open>
  What one call does to the chain: it appends one block, numbered with the new length
  and linked to the last block, or it keeps every hash, link and height.
\<close>

definition appends :: "blockchain \<Rightarrow> blockchain \<Rightarrow> bool" where
  "appends s s' =
     (\<exists>b. chain s' = chain s @ [b] \<and> height b = int (length (chain s)) + 1 \<and>
          (chain s = [] \<or> previousBlockHash b = hash (last (chain s))))"

definition keeps :: "blockchain \<Rightarrow> blockchain \<Rightarrow> bool" where
  "keeps s s' =
     (map hash (chain s') = map hash (chain s) \<and>
      map previousBlockHash (chain s') = map previousBlockHash (chain s) \<and>
      map height (chain s') = map height (chain s))"

definition chain_inv :: "block list \<Rightarrow> bool" where
  "chain_inv ch =
     (ch \<noteq> [] \<and>
      (\<forall>i. 0 < i \<and> i < length ch \<longrightarrow> previousBlockHash (ch ! i) = hash (ch ! (i - 1))) \<and>
      (\<forall>i. i < length ch \<longrightarrow> height (ch ! i) = int i + 1))"

subsection \<open>A concrete instance\<close>

text \<open>
  An instance of the libraries on which the methods compute: the hash of a block is
  the text of its height, time, body and previous hash; the codec puts \<open>hex:\<close> before
  a string and round-trips the non-empty strings; a signature is well formed when it
  begins with \<open>signed:\<close> and valid when the message follows, and \<open>verify\<close> throws on
  one that is not well formed; \<open>validate()\<close> resolves with a truthy value when the block
  fails the check of the spec, which is how \<open>validateChain\<close> reads it.
\<close>

definition stub_SHA256_stringify :: "block \<Rightarrow> string" where
  "stub_SHA256_stringify b =
     ''#'' @ toString (height b) @ '','' @ time b @ '','' @
     (case body b of JStr x \<Rightarrow> x | _ \<Rightarrow> ''object'') @ '','' @
     (case previousBlockHash b of None \<Rightarrow> ''null'' | Some h \<Rightarrow> h)"

definition stub_libs :: libs where
  "stub_libs =
     \<lparr>verify =
        (\<lambda>message addr signature.
           if take 7 signature = ''signed:'' then Some (signature = ''signed:'' @ message)
           else None),
      SHA256_stringify = stub_SHA256_stringify,
      toHex_stringify = (\<lambda>d. case d of JStr x \<Rightarrow> ''hex:'' @ x | _ \<Rightarrow> ''hex:{}''),
      hex2ascii = (\<lambda>v. case v of JStr x \<Rightarrow> drop 4 x | _ \<Rightarrow> []),
      JSON_parse =
        (\<lambda>t. if t = [] then None else if t = ''{}'' then Some (JObj []) else Some (JStr t)),
      validate = (\<lambda>b. \<not> validate_spec stub_SHA256_stringify b)\<rparr>"

text \<open>
  A chain created at millisecond 5000 on which one star was submitted at millisecond
  1301000, with a message issued at second 1000 and a valid signature.
\<close>

definition one_star :: blockchain where
  "one_star =
     run stub_libs 5000
       [SubmitStar 1301000 ''addr'' ''addr:1000:starRegistry'' ''signed:addr:1000:starRegistry''
          (JStr ''star'')]"

text \<open>The state of that chain once \<open>getStarsByWalletAddress\<close> has read the star.\<close>

definition one_star_read :: blockchain where
  "one_star_read =
     \<lparr>chain =
        [\<lparr>hash = Some ''#1,5,hex:{},null'', height = 1, body = JStr ''hex:{}'', time = ''5'',
           previousBlockHash = None, address = None\<rparr>,
         \<lparr>hash = Some ''#2,1301,hex:star,#1,5,hex:{},null'', height = 2,
           body = JStr ''star'', time = ''1301'',
           previousBlockHash = Some ''#1,5,hex:{},null'', address = Some ''addr''\<rparr>],
      this_height = - 1\<rparr>"

text \<open>
  The same two blocks, the second one given another previous hash and its own hash
  taken again: each block passes the check of its own hash, and the second no longer
  points at the first.
\<close>

definition forged_chain :: "block list" where
  "forged_chain =
     (let b = (chain one_star ! 1)\<lparr>previousBlockHash := Some ''forged'', hash := None\<rparr>
      in [chain one_star ! 0, b\<lparr>hash := Some (stub_SHA256_stringify b)\<rparr>])"

section \<open>Computing with the model\<close>

lemma toString_nat_small: "n < 10 \<Longrightarrow> toString_nat n = [digit_char n]"
  by (simp add: toString_nat.simps)

lemma toString_nat_large:
  "10 \<le> n \<Longrightarrow> toString_nat n = toString_nat (n div 10) @ [digit_char (n mod 10)]"
  by (subst toString_nat.simps) simp

lemmas eval_time =
  timeElapsed_def currentTime_def incomingTime_def getCurrentTimeStamp_def slice_0_minus3_def
  toString_def toString_nat_small toString_nat_large digit_char_def parseInt_def
  ToString_arg_def isWhiteSpace_def isDigit_def digit_value_def value_of_digits_def
  at_index_def

lemma parseInt_examples:
  "parseInt (Some '' -12ab'') = Num (- 12)"
  "parseInt (Some ''0x1f'') = Num 31"
  "parseInt (Some ''abc'') = NaN"
  "parseInt None = NaN"
  by (simp_all add: eval_time)

lemma split_str_example:
  "split_str CHR '':'' ''addr:1000:starRegistry'' = [''addr'', ''1000'', ''starRegistry'']"
  by simp

lemma elapsed_300001: "timeElapsed 301001000 ''addr:1000:starRegistry'' = Num 300001"
  by (simp add: eval_time)

lemma elapsed_301: "timeElapsed 1301000 ''addr:1000:starRegistry'' = Num 301"
  by (simp add: eval_time)

lemma elapsed_0: "timeElapsed 1000000 ''addr:1000:starRegistry'' = Num 0"
  by (simp add: eval_time)

lemma incomingTime_soon: "incomingTime ''addr:soon:starRegistry'' = NaN"
  by (simp add: eval_time)

lemma stub_time_5000: "getCurrentTimeStamp 5000 = ''5''"
  by (simp add: eval_time)

lemma stub_time_1301000: "getCurrentTimeStamp 1301000 = ''1301''"
  by (simp add: eval_time)

lemma texts_differ: "time_elapsed_text \<noteq> can_not_verify_text"
  by (simp add: time_elapsed_text_def can_not_verify_text_def)

subsection \<open>The methods in closed form\<close>

lemma validateChain_loop_done: "length ch \<le> i \<Longrightarrow> validateChain_loop L ch i errorLog = errorLog"
  by (simp add: validateChain_loop.simps)

lemma validateChain_loop_step:
  "i < length ch \<Longrightarrow>
   validateChain_loop L ch i errorLog =
     validateChain_loop L ch (Suc i)
       ((if validate L (ch ! i)
         then errorLog @ [''At height '' @ toString (height (ch ! i)) @ '' Block is not valid'']
         else errorLog) @
        (if validate L (ch ! (i - 1)) then [''At height undefined Block is not valid''] else []))"
  by (subst validateChain_loop.simps) (simp add: Let_def)

lemma validateChain_snd: "snd (validateChain L s) = s"
  by (simp add: validateChain_def)

lemma addBlock_eq:
  "addBlock L s nowMs b =
     (let b' = b\<lparr>height := int (length (chain s)) + 1, time := getCurrentTimeStamp nowMs,
                 previousBlockHash :=
                   (if chain s = [] then previousBlockHash b else hash (last (chain s)))\<rparr>;
          b'' = b'\<lparr>hash := Some (SHA256_stringify L b')\<rparr>
      in (Resolved b'', s\<lparr>chain := chain s @ [b'']\<rparr>))"
  by (cases b) (simp add: addBlock_def Let_def resolve_def last_conv_nth)

lemma addBlock_stores_valid_block:
  "validate_spec (SHA256_stringify L)
     (last (chain (snd (addBlock L s nowMs (b\<lparr>hash := None\<rparr>)))))"
  by (cases b) (simp add: addBlock_eq Let_def validate_spec_def)

lemma submitStar_snd:
  "snd (submitStar L s nowMs addr message signature star) =
     (case verify L message addr signature of
        None \<Rightarrow> s
      | Some verified \<Rightarrow> snd (addBlock L s nowMs ((Block L star)\<lparr>address := Some addr\<rparr>)))"
  by (simp add: submitStar_def Let_def split: option.splits)

lemma submitStar_fst:
  "fst (submitStar L s nowMs addr message signature star) =
     (if validateChain_loop L (chain s) 1 [] \<noteq> []
      then Rejected (ErrorLog (validateChain_loop L (chain s) 1 []))
      else if greater_number (timeElapsed nowMs message) 300000
      then Rejected (Message time_elapsed_text)
      else case verify L message addr signature of
             None \<Rightarrow> Pending
           | Some verified \<Rightarrow>
               if \<not> verified
               then Rejected (Message can_not_verify_text)
               else Resolved (last (chain (snd (addBlock L s nowMs
                      ((Block L star)\<lparr>address := Some addr\<rparr>))))))"
  by (simp add: submitStar_def Let_def resolve_def reject_def addBlock_eq split: option.splits)

lemma new_Blockchain_chain:
  "chain (new_Blockchain L nowMs) =
     [\<lparr>hash = Some (SHA256_stringify L
         \<lparr>hash = None, height = 1, body = JStr (toHex_stringify L genesis_data),
          time = getCurrentTimeStamp nowMs, previousBlockHash = None, address = None\<rparr>),
       height = 1, body = JStr (toHex_stringify L genesis_data),
       time = getCurrentTimeStamp nowMs, previousBlockHash = None, address = None\<rparr>]"
  by (simp add: new_Blockchain_def initializeChain_def addBlock_eq Let_def Block_def)

lemma new_Blockchain_height: "this_height (new_Blockchain L nowMs) = - 1"
  by (simp add: new_Blockchain_def initializeChain_def addBlock_eq Let_def)

lemma length_new_Blockchain: "length (chain (new_Blockchain L t0)) = 1"
  by (simp add: new_Blockchain_chain)

lemma validateChain_loop_new:
  "validateChain_loop L (chain (new_Blockchain L' t0)) (Suc 0) [] = []"
  by (simp add: validateChain_loop_done new_Blockchain_chain)

lemma getBlockByHash_snd: "snd (getBlockByHash L s h) = s"
  by (simp add: getBlockByHash_def Let_def split: sum.splits)

lemma getBlockByHeight_snd: "snd (getBlockByHeight L s h) = s"
  by (simp add: getBlockByHeight_def split: option.splits sum.splits)

lemma getChainHeight_snd: "snd (getChainHeight s) = s"
  by (simp add: getChainHeight_def)

lemma requestMessageOwnershipVerification_snd:
  "snd (requestMessageOwnershipVerification s nowMs addr) = s"
  by (simp add: requestMessageOwnershipVerification_def)

lemma getBlockByHeight_absent:
  "filter (\<lambda>p. height p = h) (chain s) = [] \<Longrightarrow>
   getBlockByHeight L s h = (Rejected (Thrown TypeError), s)"
  by (simp add: getBlockByHeight_def at_index_def reject_def)

subsection \<open>The earlier draft\<close>

lemma addBlock_draft_genesis_height:
  "map height (chain (snd (addBlock_draft L \<lparr>chain = [], this_height = - 1\<rparr> nowMs
      (Block L genesis_data)))) = [0]"
  by (simp add: addBlock_draft_def Let_def Block_def)

lemma getBlockByHeight_draft_absent:
  "filter (\<lambda>p. height p = h) (chain s) = [] \<Longrightarrow>
   getBlockByHeight_draft s h = (Resolved None, s)"
  by (simp add: getBlockByHeight_draft_def at_index_def resolve_def)

section \<open>What the calls keep\<close>

subsection \<open>The loop of getStarsByWalletAddress\<close>

lemma forEach_hexToJSON_map:
  assumes "\<And>b v. f (b\<lparr>body := v\<rparr>) = f b"
  shows "map f (fst (forEach_hexToJSON L rs ch)) = map f ch"
proof (induction rs arbitrary: ch)
  case Nil
  show ?case by simp
next
  case (Cons r rs)
  show ?case
  proof (cases "hexToJSON L (body (ch ! r))")
    case (Inl e)
    then show ?thesis by simp
  next
    case (Inr v)
    have "map f (ch[r := (ch ! r)\<lparr>body := v\<rparr>]) = (map f ch)[r := f (ch ! r)]"
      by (simp add: map_update assms)
    also have "\<dots> = map f ch"
      by (cases "r < length ch") (simp_all add: list_update_same_conv list_update_beyond)
    finally show ?thesis
      using Inr Cons.IH [of "ch[r := (ch ! r)\<lparr>body := v\<rparr>]"] by simp
  qed
qed

lemma getStarsByWalletAddress_map:
  assumes "\<And>b v. f (b\<lparr>body := v\<rparr>) = f b"
  shows "map f (chain (snd (getStarsByWalletAddress L s addr))) = map f (chain s)"
proof -
  let ?rs = "filter (\<lambda>r. address (chain s ! r) = Some addr) [0..<length (chain s)]"
  have "map f (fst (forEach_hexToJSON L ?rs (chain s))) = map f (chain s)"
    by (rule forEach_hexToJSON_map [OF assms])
  then show ?thesis
    by (cases "forEach_hexToJSON L ?rs (chain s)")
      (simp add: getStarsByWalletAddress_def Let_def split: option.splits)
qed

lemma getStarsByWalletAddress_this_height:
  "this_height (snd (getStarsByWalletAddress L s addr)) = this_height s"
  by (simp add: getStarsByWalletAddress_def Let_def split: prod.splits option.splits)



subsection \<open>Every call appends a linked block or keeps the hashes, links and heights\<close>

lemma addBlock_appends: "appends s (snd (addBlock L s nowMs b))"
  by (auto simp add: appends_def addBlock_eq Let_def)

lemma addBlock_this_height: "this_height (snd (addBlock L s nowMs b)) = this_height s"
  by (simp add: addBlock_eq Let_def)

lemma step_this_height: "this_height (step L s c) = this_height s"
  by (cases c)
    (simp_all add: initializeChain_def addBlock_this_height getChainHeight_snd
      requestMessageOwnershipVerification_snd submitStar_snd getBlockByHash_snd
      getBlockByHeight_snd getStarsByWalletAddress_this_height validateChain_snd
      split: option.splits)

lemma step_appends_or_keeps: "appends s (step L s c) \<or> keeps s (step L s c)"
proof (cases c)
  case (InitializeChain nowMs)
  then show ?thesis
    by (simp add: initializeChain_def addBlock_appends keeps_def)
next
  case (SubmitStar nowMs addr message signature star)
  then show ?thesis
    by (simp add: submitStar_snd addBlock_appends keeps_def split: option.splits)
next
  case (GetStarsByWalletAddress addr)
  then show ?thesis
    by (simp add: keeps_def getStarsByWalletAddress_map)
qed (simp_all add: keeps_def getChainHeight_snd requestMessageOwnershipVerification_snd
      getBlockByHash_snd getBlockByHeight_snd validateChain_snd)

lemma map_eq_nth: "map f xs = map f ys \<Longrightarrow> i < length xs \<Longrightarrow> f (xs ! i) = f (ys ! i)"
  by (metis length_map nth_map)

lemma chain_inv_keeps:
  assumes "chain_inv (chain s)" and "keeps s s'"
  shows "chain_inv (chain s')"
proof -
  have len: "length (chain s') = length (chain s)"
    using assms(2) by (metis keeps_def length_map)
  have h: "\<And>i. i < length (chain s') \<Longrightarrow> hash (chain s' ! i) = hash (chain s ! i)"
    using assms(2) by (simp add: keeps_def map_eq_nth)
  have p: "\<And>i. i < length (chain s') \<Longrightarrow>
      previousBlockHash (chain s' ! i) = previousBlockHash (chain s ! i)"
    using assms(2) by (simp add: keeps_def map_eq_nth)
  have g: "\<And>i. i < length (chain s') \<Longrightarrow> height (chain s' ! i) = height (chain s ! i)"
    using assms(2) by (simp add: keeps_def map_eq_nth)
  show ?thesis
    using assms(1) len h p g unfolding chain_inv_def by (auto simp: less_imp_diff_less)
qed

lemma chain_inv_appends:
  assumes "chain_inv (chain s)" and "appends s s'"
  shows "chain_inv (chain s')"
proof -
  from assms(2) obtain b where b: "chain s' = chain s @ [b]"
      "height b = int (length (chain s)) + 1"
      "chain s = [] \<or> previousBlockHash b = hash (last (chain s))"
    unfolding appends_def by blast
  from assms(1) have ne: "chain s \<noteq> []" by (simp add: chain_inv_def)
  with b(3) have link: "previousBlockHash b = hash (chain s ! (length (chain s) - 1))"
    by (simp add: last_conv_nth)
  show ?thesis
    unfolding chain_inv_def b(1)
  proof (intro conjI allI impI)
    show "chain s @ [b] \<noteq> []" by simp
  next
    fix i assume i: "0 < i \<and> i < length (chain s @ [b])"
    show "previousBlockHash ((chain s @ [b]) ! i) = hash ((chain s @ [b]) ! (i - 1))"
    proof (cases "i < length (chain s)")
      case True
      then show ?thesis
        using assms(1) i by (simp add: chain_inv_def nth_append less_imp_diff_less)
    next
      case False
      with i have "i = length (chain s)" by simp
      then show ?thesis
        using ne link by (simp add: nth_append)
    qed
  next
    fix i assume i: "i < length (chain s @ [b])"
    show "height ((chain s @ [b]) ! i) = int i + 1"
    proof (cases "i < length (chain s)")
      case True
      then show ?thesis
        using assms(1) by (simp add: chain_inv_def nth_append)
    next
      case False
      with i have "i = length (chain s)" by simp
      then show ?thesis
        using b(2) by (simp add: nth_append)
    qed
  qed
qed

lemma run_snoc: "run L nowMs (calls @ [c]) = step L (run L nowMs calls) c"
  by (simp add: run_def)

lemma run_chain_inv: "chain_inv (chain (run L nowMs calls))"
proof (induction calls rule: rev_induct)
  case Nil
  show ?case
    by (auto simp add: run_def new_Blockchain_chain chain_inv_def)
next
  case (snoc c calls)
  then show ?case
    using step_appends_or_keeps [of "run L nowMs calls" L c]
    by (auto simp: run_snoc intro: chain_inv_keeps chain_inv_appends)
qed

lemma run_this_height: "this_height (run L nowMs calls) = - 1"
  by (induction calls rule: rev_induct)
    (simp_all add: run_snoc step_this_height, simp add: run_def new_Blockchain_height)

lemma run_heights:
  "map height (chain (run L nowMs calls)) =
     map (\<lambda>i. int i + 1) [0..<length (chain (run L nowMs calls))]"
  using run_chain_inv [of L nowMs calls]
  by (intro nth_equalityI) (simp_all add: chain_inv_def)

subsection \<open>validateChain reads the answers of validate and the heights only\<close>

lemma validateChain_loop_cong:
  assumes "map (validate L) ch = map (validate L) ch'"
    and "map height ch = map height ch'"
  shows "validateChain_loop L ch i errorLog = validateChain_loop L ch' i errorLog"
proof -
  have len: "length ch' = length ch"
    using assms(2) by (metis length_map)
  show ?thesis
  proof (induction "length ch - i" arbitrary: i errorLog)
    case 0
    then have "length ch \<le> i" by simp
    then show ?case
      by (simp add: validateChain_loop_done len)
  next
    case (Suc n)
    then have i: "i < length ch" by simp
    then have i1: "i - Suc 0 < length ch" by simp
    have v: "validate L (ch ! i) = validate L (ch' ! i)"
      by (rule map_eq_nth [OF assms(1) i])
    have v1: "validate L (ch ! (i - Suc 0)) = validate L (ch' ! (i - Suc 0))"
      by (rule map_eq_nth [OF assms(1) i1])
    have g: "height (ch ! i) = height (ch' ! i)"
      by (rule map_eq_nth [OF assms(2) i])
    from Suc.hyps(2) have n: "n = length ch - Suc i" by simp
    show ?case
      using i by (simp add: validateChain_loop_step len v v1 g Suc.hyps(1) [OF n])
  qed
qed

subsection \<open>The concrete chains\<close>

lemma one_star_chain:
  "chain one_star =
     [\<lparr>hash = Some ''#1,5,hex:{},null'', height = 1, body = JStr ''hex:{}'', time = ''5'',
        previousBlockHash = None, address = None\<rparr>,
      \<lparr>hash = Some ''#2,1301,hex:star,#1,5,hex:{},null'', height = 2, body = JStr ''hex:star'',
        time = ''1301'', previousBlockHash = Some ''#1,5,hex:{},null'',
        address = Some ''addr''\<rparr>]"
  by (simp add: one_star_def run_def submitStar_snd addBlock_eq new_Blockchain_chain Block_def
      Let_def stub_libs_def stub_SHA256_stringify_def genesis_data_def stub_time_5000
      stub_time_1301000 toString_def toString_nat_small digit_char_def)

lemma one_star_eq:
  "one_star =
     \<lparr>chain =
        [\<lparr>hash = Some ''#1,5,hex:{},null'', height = 1, body = JStr ''hex:{}'', time = ''5'',
           previousBlockHash = None, address = None\<rparr>,
         \<lparr>hash = Some ''#2,1301,hex:star,#1,5,hex:{},null'', height = 2,
           body = JStr ''hex:star'', time = ''1301'',
           previousBlockHash = Some ''#1,5,hex:{},null'', address = Some ''addr''\<rparr>],
      this_height = - 1\<rparr>"
  by (rule blockchain.equality) (simp_all add: one_star_chain, simp add: one_star_def run_this_height)

lemma one_star_resolves:
  "fst (submitStar stub_libs (new_Blockchain stub_libs 5000) 1301000 ''addr''
          ''addr:1000:starRegistry'' ''signed:addr:1000:starRegistry'' (JStr ''star''))
     = Resolved (chain one_star ! 1)"
  by (simp add: submitStar_fst validateChain_loop_done elapsed_301 one_star_chain addBlock_eq
      new_Blockchain_chain Block_def Let_def stub_libs_def stub_SHA256_stringify_def
      genesis_data_def stub_time_5000 stub_time_1301000 toString_def toString_nat_small
      digit_char_def)

lemma forged_chain_eq:
  "forged_chain =
     [\<lparr>hash = Some ''#1,5,hex:{},null'', height = 1, body = JStr ''hex:{}'', time = ''5'',
        previousBlockHash = None, address = None\<rparr>,
      \<lparr>hash = Some ''#2,1301,hex:star,forged'', height = 2, body = JStr ''hex:star'',
        time = ''1301'', previousBlockHash = Some ''forged'', address = Some ''addr''\<rparr>]"
  by (simp add: forged_chain_def one_star_chain Let_def stub_SHA256_stringify_def toString_def
      toString_nat_small digit_char_def)

lemma hexToJSON_stub_star: "hexToJSON stub_libs (JStr ''hex:star'') = Inr (JStr ''star'')"
  by (simp add: hexToJSON_def stub_libs_def)

lemma hexToJSON_stub_decoded: "hexToJSON stub_libs (JStr ''star'') = Inl SyntaxError"
  by (simp add: hexToJSON_def stub_libs_def)

lemma upt_2: "[0..<2] = [0, Suc 0]"
  by (simp add: upt_rec)

lemma getStars_one_star:
  "getStarsByWalletAddress stub_libs one_star ''addr'' =
     (Resolved
        [\<lparr>hash = Some ''#2,1301,hex:star,#1,5,hex:{},null'', height = 2,
           body = JStr ''star'', time = ''1301'',
           previousBlockHash = Some ''#1,5,hex:{},null'', address = Some ''addr''\<rparr>],
      one_star_read)"
  by (simp add: getStarsByWalletAddress_def one_star_eq one_star_read_def Let_def upt_2
      hexToJSON_stub_star resolve_def)

lemma getStars_one_star_read:
  "fst (getStarsByWalletAddress stub_libs one_star_read ''addr'') = Rejected (Thrown SyntaxError)"
  by (simp add: getStarsByWalletAddress_def one_star_read_def Let_def upt_2
      hexToJSON_stub_decoded reject_def)

subsection \<open>Facts about every state a sequence of calls reaches\<close>

lemma submitStar_appends_when_verify_returns:
  "verify L message addr signature = Some verified \<Longrightarrow>
   length (chain (snd (submitStar L s nowMs addr message signature star))) = length (chain s) + 1"
  by (simp add: submitStar_snd addBlock_eq Let_def)

lemma submitStar_verify_throws:
  "verify L message addr signature = None \<Longrightarrow>
   snd (submitStar L s nowMs addr message signature star) = s
   \<and> fst (submitStar L s nowMs addr message signature star) \<noteq> Resolved b"
  by (simp add: submitStar_snd submitStar_fst)

lemma run_no_height:
  assumes "h < 1 \<or> int (length (chain (run L nowMs calls))) < h"
  shows "filter (\<lambda>p. height p = h) (chain (run L nowMs calls)) = []"
proof -
  have "height p \<noteq> h" if "p \<in> set (chain (run L nowMs calls))" for p
  proof -
    from that obtain i where i: "i < length (chain (run L nowMs calls))"
        and p: "p = chain (run L nowMs calls) ! i"
      by (auto simp: in_set_conv_nth)
    have "height p = int i + 1"
      using run_chain_inv [of L nowMs calls] i p by (simp add: chain_inv_def)
    with assms i show ?thesis by auto
  qed
  then show ?thesis by (simp add: filter_empty_conv)
qed

lemma getBlockByHeight_out_of_range:
  "h < 1 \<or> int (length (chain (run L nowMs calls))) < h \<Longrightarrow>
   getBlockByHeight L (run L nowMs calls) h = (Rejected (Thrown TypeError), run L nowMs calls)"
  by (simp add: getBlockByHeight_absent run_no_height)

section \<open>The claims\<close>

text \<open>
  C1. A submission whose message carries a time older than the ownership window is to
  fail with the expiry error, with no signature verified, no block appended and the
  height unchanged. In \<open>submitStar\<close> the time check calls \<open>reject\<close> and does not
  return, and it compares the seconds elapsed with \<open>300000\<close>. On a new chain, with a
  message issued at second 1000: submitted 300001 seconds later the Promise is rejected
  with the time message, \<open>bitcoinMessage.verify\<close> is called all the same, and wherever
  it returns, true or false, the chain has one block more, the block of the
  submission (where it throws, the chain is as it was); submitted 301 seconds later,
  past the five minutes, the Promise is not rejected for the time at all.
\<close>

theorem submitStar_expired_still_appends:
  "fst (submitStar L (new_Blockchain L t0) 301001000 addr ''addr:1000:starRegistry'' signature star)
     = Rejected (Message time_elapsed_text)
   \<and> (case verify L ''addr:1000:starRegistry'' addr signature of
        Some verified \<Rightarrow>
          length (chain (snd (submitStar L (new_Blockchain L t0) 301001000 addr
              ''addr:1000:starRegistry'' signature star)))
            = length (chain (new_Blockchain L t0)) + 1
          \<and> address (last (chain (snd (submitStar L (new_Blockchain L t0) 301001000 addr
              ''addr:1000:starRegistry'' signature star)))) = Some addr
      | None \<Rightarrow>
          snd (submitStar L (new_Blockchain L t0) 301001000 addr
              ''addr:1000:starRegistry'' signature star) = new_Blockchain L t0)
   \<and> timeElapsed 1301000 ''addr:1000:starRegistry'' = Num 301
   \<and> fst (submitStar L (new_Blockchain L t0) 1301000 addr ''addr:1000:starRegistry'' signature star)
     \<noteq> Rejected (Message time_elapsed_text)"
  by (simp add: submitStar_fst submitStar_snd addBlock_eq Let_def elapsed_300001 elapsed_301
      texts_differ texts_differ [symmetric] Block_def validateChain_loop_new
      length_new_Blockchain split: option.splits)

text \<open>
  C2. A submission whose signature does not verify is to fail with the signature
  error and append no block. In \<open>submitStar\<close> the signature check calls \<open>reject\<close> and
  does not return: on a new chain, with a message issued in the same second and a
  verifier that returns false, the Promise is rejected with the signature message and
  the chain has one block more, the block of the submission.
\<close>

theorem submitStar_bad_signature_still_appends:
  "fst (submitStar (L\<lparr>verify := (\<lambda>message addr signature. Some False)\<rparr>)
          (new_Blockchain L t0) 1000000 addr ''addr:1000:starRegistry'' signature star)
     = Rejected (Message can_not_verify_text)
   \<and> length (chain (snd (submitStar (L\<lparr>verify := (\<lambda>message addr signature. Some False)\<rparr>)
          (new_Blockchain L t0) 1000000 addr ''addr:1000:starRegistry'' signature star)))
     = length (chain (new_Blockchain L t0)) + 1
   \<and> address (last (chain (snd (submitStar (L\<lparr>verify := (\<lambda>message addr signature. Some False)\<rparr>)
          (new_Blockchain L t0) 1000000 addr ''addr:1000:starRegistry'' signature star))))
     = Some addr"
  by (simp add: submitStar_fst submitStar_snd addBlock_eq Let_def elapsed_0 Block_def
      validateChain_loop_new length_new_Blockchain)

text \<open>
  C3. \<open>validateChain\<close> is to check every block after the first for a mismatch of its
  own hash and for a broken link to its predecessor, to record each violation with
  its height and its kind, and to return the empty list iff the chain is consistent.
  The loop only asks \<open>validate()\<close> of the block and of its predecessor; it never
  compares \<open>previousBlockHash\<close> with the hash of the predecessor. On the chain of two
  blocks that each pass the check of their own hash, the second not pointing at the
  first, it resolves with the empty list. Where \<open>validate()\<close> answers with a truthy
  value for both blocks, the two messages are one for height 2 and one for height
  \<open>undefined\<close>, neither telling the kind.
\<close>

theorem validateChain_misses_broken_link:
  "validate_spec stub_SHA256_stringify (forged_chain ! 0)
   \<and> validate_spec stub_SHA256_stringify (forged_chain ! 1)
   \<and> previousBlockHash (forged_chain ! 1) \<noteq> hash (forged_chain ! 0)
   \<and> fst (validateChain stub_libs \<lparr>chain = forged_chain, this_height = - 1\<rparr>) = Resolved []
   \<and> fst (validateChain (stub_libs\<lparr>validate := (\<lambda>b. True)\<rparr>)
          \<lparr>chain = forged_chain, this_height = - 1\<rparr>)
       = Resolved [''At height 2 Block is not valid'', ''At height undefined Block is not valid'']"
  by (simp add: forged_chain_eq validate_spec_def stub_SHA256_stringify_def toString_def
      toString_nat_small digit_char_def validateChain_def resolve_def validateChain_loop_step
      validateChain_loop_done stub_libs_def)

text \<open>
  C4. After initialization the genesis block is to be at height 0 with the sentinel
  previous hash, and \<open>getBlockByHeight(0)\<close> is to return it. \<open>_addBlock\<close> sets the
  height to the length of the array and then increments it: the genesis block of a new
  chain has height 1 (its previous hash is \<open>null\<close>), no block has height 0, and
  \<open>getBlockByHeight(0)\<close> is rejected with the TypeError of reading \<open>height\<close> of
  \<open>undefined\<close>.
\<close>

theorem genesis_height_is_1:
  "map height (chain (new_Blockchain L t0)) = [1]
   \<and> map previousBlockHash (chain (new_Blockchain L t0)) = [None]
   \<and> fst (getBlockByHeight L (new_Blockchain L t0) 0) = Rejected (Thrown TypeError)"
  by (simp add: new_Blockchain_chain getBlockByHeight_def at_index_def reject_def)

text \<open>
  C5. \<open>getChainHeight\<close> is to resolve with the highest block height, non-negative once
  the chain is initialized, and one more after each successful submission. No method
  assigns \<open>this.height\<close> after the constructor has set it to \<open>-1\<close>: after any sequence
  of calls, with the chain never empty, \<open>getChainHeight\<close> resolves with \<open>-1\<close>.
\<close>

theorem getChainHeight_always_minus_1:
  "fst (getChainHeight (run L t0 calls)) = Resolved (- 1) \<and> chain (run L t0 calls) \<noteq> []"
  using run_chain_inv [of L t0 calls]
  by (simp add: getChainHeight_def resolve_def run_this_height chain_inv_def)

text \<open>
  C6. In the chain that any sequence of calls leaves, so in particular after every
  successful submission, the previous hash of every block but the first equals the
  stored hash of the block before it.
\<close>

theorem previousBlockHash_links:
  assumes "0 < i" and "i < length (chain (run L t0 calls))"
  shows "previousBlockHash (chain (run L t0 calls) ! i) = hash (chain (run L t0 calls) ! (i - 1))"
  using run_chain_inv [of L t0 calls] assms by (simp add: chain_inv_def)

text \<open>The chain with one star submitted has a second block, and it links to the first.\<close>

theorem previousBlockHash_links_witness:
  "0 < (1::nat) \<and> 1 < length (chain one_star)
   \<and> previousBlockHash (chain one_star ! 1) = hash (chain one_star ! (1 - 1))"
  using previousBlockHash_links [of 1 stub_libs 5000
      "[SubmitStar 1301000 ''addr'' ''addr:1000:starRegistry'' ''signed:addr:1000:starRegistry''
          (JStr ''star'')]"]
  by (simp add: one_star_chain one_star_def [symmetric])

text \<open>
  C7. The read queries are to leave the stored fields of every block unchanged.
  \<open>getStarsByWalletAddress\<close> assigns the decoded body to the stored blocks it returns,
  where the other queries build a duplicate. On the chain with one star: the body of
  the stored star goes from its encoded form to the decoded one, the block no longer
  passes the check of its own hash, and a second call for the same address is rejected
  with the SyntaxError of decoding a body that is already decoded.
\<close>

theorem getStarsByWalletAddress_rewrites_stored_body:
  "map body (chain one_star) = [JStr ''hex:{}'', JStr ''hex:star'']
   \<and> map body (chain (snd (getStarsByWalletAddress stub_libs one_star ''addr'')))
       = [JStr ''hex:{}'', JStr ''star'']
   \<and> validate_spec stub_SHA256_stringify (chain one_star ! 1)
   \<and> \<not> validate_spec stub_SHA256_stringify
         (chain (snd (getStarsByWalletAddress stub_libs one_star ''addr'')) ! 1)
   \<and> fst (getStarsByWalletAddress stub_libs
          (snd (getStarsByWalletAddress stub_libs one_star ''addr'')) ''addr'')
       = Rejected (Thrown SyntaxError)"
proof -
  have "validate_spec stub_SHA256_stringify (chain one_star ! 1)"
    by (simp add: one_star_chain validate_spec_def stub_SHA256_stringify_def toString_def
        toString_nat_small digit_char_def)
  moreover have "\<not> validate_spec stub_SHA256_stringify (chain one_star_read ! 1)"
    by (simp add: one_star_read_def validate_spec_def stub_SHA256_stringify_def toString_def
        toString_nat_small digit_char_def)
  moreover have "map body (chain one_star_read) = [JStr ''hex:{}'', JStr ''star'']"
    by (simp add: one_star_read_def)
  moreover have "map body (chain one_star) = [JStr ''hex:{}'', JStr ''hex:star'']"
    by (simp add: one_star_chain)
  ultimately show ?thesis
    by (simp add: getStars_one_star getStars_one_star_read)
qed




text \<open>
  C9. For a height that no block has, \<open>getBlockByHeight\<close> is to resolve with the absent
  result without failing. The method reads \<open>height\<close> of the first element of an empty
  array: on a new chain \<open>getBlockByHeight(9999)\<close> is rejected with a TypeError. The
  state is left as it was.
\<close>

theorem getBlockByHeight_9999_throws:
  "getBlockByHeight L (new_Blockchain L t0) 9999 =
     (Rejected (Thrown TypeError), new_Blockchain L t0)"
  by (simp add: new_Blockchain_chain getBlockByHeight_def at_index_def reject_def)

text \<open>
  C10. When the second field of the message, split at the colons, does not parse as
  an integer, the elapsed time is \<open>NaN\<close> and the comparison with the threshold is
  false: \<open>submitStar\<close> does not reject for the time and goes on to the signature
  check. What the Promise settles with is then decided by the check of the chain and
  by \<open>bitcoinMessage.verify\<close>: where it returns, the block is appended; where it throws,
  nothing is appended and the Promise stays pending unless the check of the chain
  has rejected it.
\<close>

theorem submitStar_NaN_passes_time_gate:
  assumes "incomingTime message = NaN"
  shows "\<not> greater_number (timeElapsed nowMs message) 300000
    \<and> fst (submitStar L s nowMs addr message signature star) \<noteq> Rejected (Message time_elapsed_text)
    \<and> (case verify L message addr signature of
         Some verified \<Rightarrow>
           fst (submitStar L s nowMs addr message signature star) =
             (if validateChain_loop L (chain s) 1 [] \<noteq> []
              then Rejected (ErrorLog (validateChain_loop L (chain s) 1 []))
              else if \<not> verified
              then Rejected (Message can_not_verify_text)
              else Resolved (last (chain (snd (submitStar L s nowMs addr message signature star)))))
           \<and> length (chain (snd (submitStar L s nowMs addr message signature star)))
               = length (chain s) + 1
       | None \<Rightarrow>
           submitStar L s nowMs addr message signature star =
             (if validateChain_loop L (chain s) 1 [] \<noteq> []
              then Rejected (ErrorLog (validateChain_loop L (chain s) 1 []))
              else Pending, s))"
proof -
  have t: "timeElapsed nowMs message = NaN"
    using assms by (cases "currentTime nowMs") (simp_all add: timeElapsed_def)
  have g: "\<not> greater_number (timeElapsed nowMs message) 300000"
    by (simp add: t)
  have n: "fst (submitStar L s nowMs addr message signature star)
      \<noteq> Rejected (Message time_elapsed_text)"
    by (simp add: t submitStar_fst texts_differ [symmetric] split: option.splits)
  have c: "(case verify L message addr signature of
         Some verified \<Rightarrow>
           fst (submitStar L s nowMs addr message signature star) =
             (if validateChain_loop L (chain s) 1 [] \<noteq> []
              then Rejected (ErrorLog (validateChain_loop L (chain s) 1 []))
              else if \<not> verified
              then Rejected (Message can_not_verify_text)
              else Resolved (last (chain (snd (submitStar L s nowMs addr message signature star)))))
           \<and> length (chain (snd (submitStar L s nowMs addr message signature star)))
               = length (chain s) + 1
       | None \<Rightarrow>
           submitStar L s nowMs addr message signature star =
             (if validateChain_loop L (chain s) 1 [] \<noteq> []
              then Rejected (ErrorLog (validateChain_loop L (chain s) 1 []))
              else Pending, s))"
  proof (cases "verify L message addr signature")
    case None
    then show ?thesis
      by (simp add: prod_eq_iff t submitStar_fst submitStar_snd)
  next
    case (Some verified)
    then show ?thesis
      by (simp add: t submitStar_fst submitStar_snd addBlock_eq Let_def)
  qed
  from g n c show ?thesis by blast
qed

text \<open>
  A message whose second field is \<open>soon\<close>, on a new chain: the time check lets it
  pass. With a well-formed signature of another message the signature check rejects
  and the block is appended; with a malformed signature \<open>verify\<close> throws, the Promise
  stays pending and the chain keeps its one block.
\<close>

theorem submitStar_NaN_passes_time_gate_witness:
  "incomingTime ''addr:soon:starRegistry'' = NaN
   \<and> \<not> greater_number (timeElapsed 1301000 ''addr:soon:starRegistry'') 300000
   \<and> fst (submitStar stub_libs (new_Blockchain stub_libs 5000) 1301000 ''addr''
        ''addr:soon:starRegistry'' ''signed:other'' (JStr ''star''))
      \<noteq> Rejected (Message time_elapsed_text)
   \<and> fst (submitStar stub_libs (new_Blockchain stub_libs 5000) 1301000 ''addr''
        ''addr:soon:starRegistry'' ''signed:other'' (JStr ''star''))
      = Rejected (Message can_not_verify_text)
   \<and> length (chain (snd (submitStar stub_libs (new_Blockchain stub_libs 5000) 1301000 ''addr''
        ''addr:soon:starRegistry'' ''signed:other'' (JStr ''star'')))) = 2
   \<and> submitStar stub_libs (new_Blockchain stub_libs 5000) 1301000 ''addr''
        ''addr:soon:starRegistry'' ''unsigned'' (JStr ''star'')
      = (Pending, new_Blockchain stub_libs 5000)"
proof -
  have v: "verify stub_libs ''addr:soon:starRegistry'' ''addr'' ''signed:other'' = Some False"
    by (simp add: stub_libs_def)
  have u: "verify stub_libs ''addr:soon:starRegistry'' ''addr'' ''unsigned'' = None"
    by (simp add: stub_libs_def)
  show ?thesis
    using submitStar_NaN_passes_time_gate [OF incomingTime_soon, of 1301000 stub_libs
        "new_Blockchain stub_libs 5000" "''addr''" "''signed:other''" "JStr ''star''"]
      submitStar_NaN_passes_time_gate [OF incomingTime_soon, of 1301000 stub_libs
        "new_Blockchain stub_libs 5000" "''addr''" "''unsigned''" "JStr ''star''"]
    by (simp add: incomingTime_soon v u validateChain_loop_new length_new_Blockchain
        texts_differ [symmetric])
qed

end
